theory Spec2Isabelle
  imports Complex_Main
begin

section \<open>Data model\<close>

text \<open>
  The persisted cache is a JSON list of dictionaries with the keys \<open>username\<close>,
  \<open>name\<close>, \<open>message\<close> and, for a reply, a nested \<open>reply_message\<close> of the same
  three keys. Python compares such dictionaries by value, which is HOL equality on the
  records below.
\<close>

record message_info =
  username :: string
  name :: string
  message :: string

record cached_message = message_info +
  reply_message :: "message_info option"

text \<open>Exceptions of the source, as values.\<close>

datatype error =
    IndexError
  | AttributeError
  | NameError
  | CacheReadError
  | CacheWriteError
  | ExternalError

text \<open>The file system. The operating system resolves a path to the file it names, and
  two paths may name one file (as \<open>./x\<close> and \<open>x\<close> do); a file holds a decoded JSON
  cache, or nothing readable.\<close>

record fs =
  file_of :: "string \<Rightarrow> string"
  stored :: "string \<Rightarrow> cached_message list option"

datatype level = DEBUG | INFO | WARNING | ERROR | CRITICAL

text \<open>What a run does to the outside: a log record (level and format string) or a
  message sent to a channel.\<close>

datatype event = Log level string | Send nat string

text \<open>The configuration keys the bot reads. \<open>channel_bot_chat = None\<close> is the key
  being absent from the \<open>Discord\<close> section.\<close>

record config =
  channel_bot_chat :: "nat list option"
  messages_cache :: string
  remove_emojis_AI :: bool
  send_message_line_by_line :: bool

text \<open>The chat client: the bot's own user id and the channels it can see.\<close>

record client =
  user_id :: nat
  channels :: "nat list"

text \<open>\<open>class discord_AI_bot\<close>: the two tracking variables of \<open>__init__\<close>. The
  third, \<open>response_lock\<close>, lives in the interleaving model below.\<close>

record discord_AI_bot =
  last_message_time :: real
  awaiting_response :: bool

record world =
  bot :: discord_AI_bot
  files :: fs
  events :: "event list"

text \<open>
  What the collaborators answer during one run of \<open>AI_send_message\<close>:
  \<open>utils.test_internet()\<close>, whether entering \<open>response_channel.typing()\<close> raises,
  \<open>cai.cai_response\<close>, \<open>utils.remove_emoji\<close>, whether the k-th call of
  \<open>response_channel.send\<close> raises, what the other coroutines do to the files while the
  run is suspended between its two reads of the cache, whether \<open>utils.write_json\<close>
  raises, and \<open>time.time()\<close> in the \<open>finally\<close> block.
\<close>

record dispatch_env =
  test_internet :: bool
  typing_raises :: bool
  cai_response :: "cached_message list \<Rightarrow> error + string"
  remove_emoji :: "string \<Rightarrow> error + string"
  send_raises :: "nat \<Rightarrow> bool"
  concurrent :: "fs \<Rightarrow> fs"
  write_raises :: bool
  time_now :: real

text \<open>A chat message as the client delivers it (also the shape of a fetched
  referenced message).\<close>

record chat_message =
  channel_id :: nat
  author_id :: nat
  author :: string
  global_name :: "string option"
  author_name :: string
  content :: string
  reference :: "nat option"

record collector_env =
  fetch_message :: "nat \<Rightarrow> error + chat_message"
  collect_now :: real

section \<open>Cache store\<close>

text \<open>Modelled from the spec: \<open>utils.read_json\<close> is not among the sources. The spec
  has the cache read as a whole sequence; an unreadable file is an error.\<close>

definition read_json :: "string \<Rightarrow> fs \<Rightarrow> error + cached_message list" where
  "read_json path fs =
     (case stored fs (file_of fs path) of None \<Rightarrow> Inl CacheReadError | Some xs \<Rightarrow> Inr xs)"

text \<open>Modelled from the spec: \<open>utils.write_json\<close> is not among the sources. The spec
  has the cache written as a whole sequence.\<close>

definition write_json :: "string \<Rightarrow> cached_message list \<Rightarrow> fs \<Rightarrow> fs" where
  "write_json path xs fs = fs\<lparr>stored := (stored fs)(file_of fs path \<mapsto> xs)\<rparr>"

text \<open>Modelled from the spec: \<open>utils.capture_message\<close> is not among the sources. The
  spec has it append one entry by a load-modify-store of the whole sequence.\<close>

definition capture_message ::
  "string \<Rightarrow> message_info \<Rightarrow> message_info option \<Rightarrow> fs \<Rightarrow> error + fs" where
  "capture_message cache_file info reply fs =
     (case read_json cache_file fs of
        Inl e \<Rightarrow> Inl e
      | Inr cache \<Rightarrow>
          Inr (write_json cache_file
                 (cache @ [\<lparr>username = username info, name = name info,
                            message = message info, reply_message = reply\<rparr>]) fs))"

definition log_event :: "level \<Rightarrow> string \<Rightarrow> world \<Rightarrow> world" where
  "log_event lv s w = w\<lparr>events := events w @ [Log lv s]\<rparr>"

section \<open>Dispatch: \<open>AI_send_message\<close>\<close>

text \<open>\<open>utils.config_yaml.get("Discord", {}).get("channel_bot_chat", [None])[0]\<close>: the
  default list is used only when the key is absent; indexing an empty list raises.\<close>

definition response_channel_id :: "config \<Rightarrow> error + nat option" where
  "response_channel_id cfg =
     (case channel_bot_chat cfg of
        None \<Rightarrow> Inr None
      | Some [] \<Rightarrow> Inl IndexError
      | Some (c # cs) \<Rightarrow> Inr (Some c))"

text \<open>\<open>client.get_channel\<close>: the channel if the client can see it, else \<open>None\<close>.\<close>

definition get_channel :: "client \<Rightarrow> nat option \<Rightarrow> nat option" where
  "get_channel cl cid =
     (case cid of
        None \<Rightarrow> None
      | Some c \<Rightarrow> if c \<in> set (channels cl) then Some c else None)"

text \<open>\<open>response.split("\n")\<close>.\<close>

fun split_nl :: "string \<Rightarrow> string list" where
  "split_nl [] = [[]]"
| "split_nl (c # cs) =
     (if c = CHR 0x0A then [] # split_nl cs
      else (case split_nl cs of [] \<Rightarrow> [[c]] | l # ls \<Rightarrow> (c # l) # ls))"

text \<open>\<open>line.strip()\<close>: Python's whitespace among the code points below 256.\<close>

definition is_space :: "char \<Rightarrow> bool" where
  "is_space c = (of_char c \<in> {9, 10, 11, 12, 13, 28, 29, 30, 31, 32, 133, 160 :: nat})"

definition strip :: "string \<Rightarrow> string" where
  "strip s = rev (dropWhile is_space (rev (dropWhile is_space s)))"

text \<open>The loop \<open>for line in response.split("\n")\<close>: \<open>k\<close> counts the calls of
  \<open>send\<close> made so far; a raising call ends the loop with the events before it.\<close>

fun send_lines :: "(nat \<Rightarrow> bool) \<Rightarrow> nat \<Rightarrow> nat \<Rightarrow> string list \<Rightarrow> event list \<times> error option" where
  "send_lines raises c k [] = ([], None)"
| "send_lines raises c k (line # rest) =
     (if strip line \<noteq> [] then
        (if raises k then ([], Some ExternalError)
         else (let r = send_lines raises c (Suc k) rest
               in (Send c line # Log DEBUG ''Sent line: %s'' # fst r, snd r)))
      else send_lines raises c k rest)"

text \<open>Lines 151 to 162: send the response in the configured channel.\<close>

definition deliver ::
  "config \<Rightarrow> dispatch_env \<Rightarrow> nat option \<Rightarrow> string \<Rightarrow> event list \<times> error option" where
  "deliver cfg env response_channel response =
     (case response_channel of
        Some c \<Rightarrow>
          (if send_message_line_by_line cfg then
             send_lines (send_raises env) c 0 (split_nl response)
           else if send_raises env 0 then ([], Some ExternalError)
           else ([Send c response, Log DEBUG ''Sent full response.''], None))
      | None \<Rightarrow> ([Log CRITICAL ''Response channel with ID %s not found.''], None))"

text \<open>Lines 141 to 162: the AI call, the emoji stripping and the delivery.\<close>

definition respond ::
  "config \<Rightarrow> dispatch_env \<Rightarrow> nat option \<Rightarrow> cached_message list \<Rightarrow> event list \<times> error option" where
  "respond cfg env response_channel cached_data =
     (case cai_response env cached_data of
        Inl e \<Rightarrow> ([], Some e)
      | Inr response \<Rightarrow>
          (if remove_emojis_AI cfg then
             (case remove_emoji env response of
                Inl e \<Rightarrow> ([Log DEBUG ''AI response received: %s''], Some e)
              | Inr response' \<Rightarrow>
                  (let d = deliver cfg env response_channel response'
                   in ([Log DEBUG ''AI response received: %s'',
                        Log DEBUG ''AI response received (without emoji): %s''] @ fst d, snd d)))
           else
             (let d = deliver cfg env response_channel response
              in (Log DEBUG ''AI response received: %s'' # fst d, snd d))))"

text \<open>
  Lines 132 to 162, the body of the \<open>try\<close>. The result is the binding of the local
  \<open>cached_data\<close> (\<open>None\<close> while the name is unbound), the events, and the exception
  that left the body, if one did. \<open>response_channel.typing()\<close> on \<open>None\<close> raises
  AttributeError before anything is read.
\<close>

definition try_body ::
  "config \<Rightarrow> dispatch_env \<Rightarrow> nat option \<Rightarrow> fs
     \<Rightarrow> cached_message list option \<times> event list \<times> error option" where
  "try_body cfg env response_channel fs =
     (case response_channel of
        None \<Rightarrow> (None, [], Some AttributeError)
      | Some c \<Rightarrow>
          (if typing_raises env then (None, [], Some ExternalError)
           else
             (case read_json (messages_cache cfg) fs of
                Inl e \<Rightarrow> (None, [], Some e)
              | Inr cached_data \<Rightarrow>
                  (if cached_data = [] then
                     (Some cached_data, [Log INFO ''No cached messages found.''], None)
                   else
                     (let r = respond cfg env response_channel cached_data
                      in (Some cached_data, fst r, snd r))))))"

text \<open>Lines 175 and 176: \<open>[x for x in current_cache if x not in cached_data]\<close>. The
  condition is evaluated once per element, so an unbound \<open>cached_data\<close> raises
  NameError exactly when \<open>current_cache\<close> has an element.\<close>

definition remove_messages ::
  "cached_message list \<Rightarrow> cached_message list option \<Rightarrow> error + cached_message list" where
  "remove_messages current_cache cached_data =
     (case cached_data of
        Some snapshot \<Rightarrow> Inr (filter (\<lambda>x. x \<notin> set snapshot) current_cache)
      | None \<Rightarrow> if current_cache = [] then Inr [] else Inl NameError)"

text \<open>Lines 166 to 182, the \<open>finally\<close> block.\<close>

definition finally_block ::
  "config \<Rightarrow> dispatch_env \<Rightarrow> cached_message list option \<Rightarrow> world \<Rightarrow> world" where
  "finally_block cfg env cached_data w =
     (let w1 = w\<lparr>bot := (bot w)\<lparr>awaiting_response := False,
                                 last_message_time := time_now env\<rparr>\<rparr>
      in (case read_json (messages_cache cfg) (files w1) of
            Inl e \<Rightarrow> log_event ERROR ''Error updating message cache: %s'' w1
          | Inr current_cache \<Rightarrow>
              (case remove_messages current_cache cached_data of
                 Inl e \<Rightarrow> log_event ERROR ''Error updating message cache: %s'' w1
               | Inr remaining \<Rightarrow>
                   (if write_raises env then
                      log_event ERROR ''Error updating message cache: %s'' w1
                    else
                      log_event DEBUG ''Cache updated after sending AI message.''
                        (w1\<lparr>files := write_json (messages_cache cfg) remaining (files w1)\<rparr>)))))"

text \<open>Lines 130 to 186, what runs while \<open>response_lock\<close> is held. The files the
  \<open>finally\<close> block reads are the files as the other coroutines left them.\<close>

definition locked_section ::
  "config \<Rightarrow> dispatch_env \<Rightarrow> nat option \<Rightarrow> world \<Rightarrow> world" where
  "locked_section cfg env response_channel w =
     (if test_internet env then
        (let r = try_body cfg env response_channel (files w);
             w1 = w\<lparr>events := events w @ fst (snd r)\<rparr>;
             w2 = (case snd (snd r) of
                     None \<Rightarrow> w1
                   | Some e \<Rightarrow>
                       log_event ERROR ''An error occurred while sending AI message: %s'' w1)
         in finally_block cfg env (fst r) (w2\<lparr>files := concurrent env (files w2)\<rparr>))
      else
        (log_event WARNING ''No internet access detected. AI message not sent.'' w)
          \<lparr>bot := (bot w)\<lparr>awaiting_response := False\<rparr>\<rparr>)"

text \<open>Lines 124 to 127, before the lock: the flag is set, then the channel is looked
  up; an IndexError leaves the coroutine here.\<close>

definition dispatch_entry :: "config \<Rightarrow> client \<Rightarrow> world \<Rightarrow> (error + nat option) \<times> world" where
  "dispatch_entry cfg cl w =
     (let w1 = w\<lparr>bot := (bot w)\<lparr>awaiting_response := True\<rparr>\<rparr>
      in (case response_channel_id cfg of
            Inl e \<Rightarrow> (Inl e, w1)
          | Inr cid \<Rightarrow> (Inr (get_channel cl cid), w1)))"

text \<open>\<open>AI_send_message\<close> run with the lock free: the exception that escapes it, if
  any, and the world it leaves.\<close>

definition AI_send_message ::
  "config \<Rightarrow> client \<Rightarrow> dispatch_env \<Rightarrow> world \<Rightarrow> error option \<times> world" where
  "AI_send_message cfg cl env w =
     (case dispatch_entry cfg cl w of
        (Inl e, w1) \<Rightarrow> (Some e, w1)
      | (Inr response_channel, w1) \<Rightarrow> (None, locked_section cfg env response_channel w1))"

section \<open>Inactivity monitor: \<open>monitor_inactivity\<close>\<close>

text \<open>Line 204, the trigger condition.\<close>

definition trigger_condition :: "real \<Rightarrow> real \<Rightarrow> nat \<Rightarrow> bool" where
  "trigger_condition now last_time cache_count =
     ((now - last_time \<ge> 7 \<or> cache_count \<ge> 5) \<and> cache_count \<ge> 1)"

text \<open>Lines 199 and 200: \<open>open("messages_cache.json", 'r')\<close> and \<open>json.load\<close> give the
  decoded content of the file at the path, or raise.\<close>

definition open_json_load :: "string \<Rightarrow> fs \<Rightarrow> error + cached_message list" where
  "open_json_load path fs =
     (case stored fs (file_of fs path) of
        None \<Rightarrow> Inl CacheReadError
      | Some cached_data \<Rightarrow> Inr cached_data)"

text \<open>Lines 196 to 209, one iteration of the loop after its sleep. The count is read
  from the literal path. The flag returned says whether \<open>AI_send_message\<close> was
  called.\<close>

definition monitor_tick ::
  "config \<Rightarrow> client \<Rightarrow> dispatch_env \<Rightarrow> real \<Rightarrow> world \<Rightarrow> bool \<times> world" where
  "monitor_tick cfg cl env now w =
     (if awaiting_response (bot w) then (False, w)
      else
        (case open_json_load ''messages_cache.json'' (files w) of
           Inl e \<Rightarrow> (False, log_event ERROR ''Error in monitor_inactivity: %s'' w)
         | Inr cached_data \<Rightarrow>
             (let cache_count = length cached_data
              in if trigger_condition now (last_message_time (bot w)) cache_count then
                   (let r = AI_send_message cfg cl env
                              (log_event DEBUG
                                 ''Inactivity threshold reached (or cache count >= 5). Triggering AI_send_message.'' w)
                    in (True,
                        (case fst r of
                           None \<Rightarrow> snd r
                         | Some e \<Rightarrow> log_event ERROR ''Error in monitor_inactivity: %s'' (snd r))))
                 else (False, w))))"

text \<open>The loop itself never ends; its first ticks, one per element of the list of what
  the clock and the collaborators answer at each.\<close>

fun monitor_inactivity ::
  "config \<Rightarrow> client \<Rightarrow> (real \<times> dispatch_env) list \<Rightarrow> world \<Rightarrow> world" where
  "monitor_inactivity cfg cl [] w = w"
| "monitor_inactivity cfg cl (t # ts) w =
     monitor_inactivity cfg cl ts (snd (monitor_tick cfg cl (snd t) (fst t) w))"

section \<open>Message collector: \<open>read_channel_messages\<close> and \<open>time_typing\<close>\<close>

text \<open>\<open>utils.config_yaml.get("Discord", {}).get("channel_bot_chat", [])\<close>.\<close>

definition watched_channels :: "config \<Rightarrow> nat list" where
  "watched_channels cfg = (case channel_bot_chat cfg of None \<Rightarrow> [] | Some cs \<Rightarrow> cs)"

text \<open>\<open>message.content.startswith(("#", "//"))\<close>.\<close>

definition is_comment :: "string \<Rightarrow> bool" where
  "is_comment s = (take 1 s = ''#'' \<or> take 2 s = ''//'')"

text \<open>\<open>author.global_name or author.name\<close>: an absent or empty global name falls back.\<close>

definition display_name :: "chat_message \<Rightarrow> string" where
  "display_name m =
     (case global_name m of
        None \<Rightarrow> author_name m
      | Some g \<Rightarrow> if g = [] then author_name m else g)"

definition info_of :: "chat_message \<Rightarrow> message_info" where
  "info_of m = \<lparr>username = author m, name = display_name m, message = content m\<rparr>"

definition touch :: "real \<Rightarrow> world \<Rightarrow> world" where
  "touch now w = w\<lparr>bot := (bot w)\<lparr>last_message_time := now\<rparr>\<rparr>"

text \<open>Lines 69 to 117. The inner \<open>try\<close> covers both the fetch and the capture of a
  reply; its handler only logs.\<close>

definition read_channel_messages ::
  "config \<Rightarrow> client \<Rightarrow> collector_env \<Rightarrow> chat_message \<Rightarrow> world \<Rightarrow> world" where
  "read_channel_messages cfg cl env msg w =
     (if channel_id msg \<in> set (watched_channels cfg) \<and> author_id msg \<noteq> user_id cl
         \<and> \<not> is_comment (content msg) then
        (let w1 = log_event DEBUG ''Reading message from channel: %s'' w
         in (case reference msg of
               Some message_id \<Rightarrow>
                 (case fetch_message env message_id of
                    Inl e \<Rightarrow>
                      touch (collect_now env)
                        (log_event ERROR ''Error fetching reference message: %s'' w1)
                  | Inr ref_message \<Rightarrow>
                      (case capture_message (messages_cache cfg) (info_of msg)
                              (Some (info_of ref_message)) (files w1) of
                         Inl e \<Rightarrow>
                           touch (collect_now env)
                             (log_event ERROR ''Error fetching reference message: %s'' w1)
                       | Inr fs' \<Rightarrow> touch (collect_now env) (w1\<lparr>files := fs'\<rparr>)))
             | None \<Rightarrow>
                 (case capture_message (messages_cache cfg) (info_of msg) None (files w1) of
                    Inl e \<Rightarrow> log_event ERROR ''Error in read_channel_messages: %s'' w1
                  | Inr fs' \<Rightarrow> touch (collect_now env) (w1\<lparr>files := fs'\<rparr>))))
      else w)"

text \<open>Lines 56 to 62.\<close>

definition time_typing :: "config \<Rightarrow> client \<Rightarrow> nat \<Rightarrow> nat \<Rightarrow> real \<Rightarrow> world \<Rightarrow> world" where
  "time_typing cfg cl channel user now w =
     (if channel \<in> set (watched_channels cfg) \<and> user \<noteq> user_id cl then
        log_event DEBUG ''User %s is typing in channel %s; last_message_time updated.''
          (touch now w)
      else w)"

section \<open>Concurrent triggers and \<open>response_lock\<close>\<close>

text \<open>
  Several calls of \<open>AI_send_message\<close> run as coroutines on one event loop and share
  the bot, the files and \<open>response_lock\<close>. A coroutine is before line 124 (\<open>Idle\<close>),
  suspended in \<open>async with self.response_lock\<close> with its local \<open>response_channel\<close>
  (\<open>Waiting\<close>), inside the block (\<open>Critical\<close>), or finished (\<open>Done\<close>).
\<close>

datatype pc = Idle | Waiting "nat option" | Critical "nat option" | Done

record system =
  shared :: world
  locked :: bool
  pcs :: "nat \<Rightarrow> pc"

text \<open>What the event loop lets happen next: coroutine \<open>i\<close> runs lines 124 to 129,
  a suspended coroutine \<open>i\<close> is resumed at the lock, or coroutine \<open>i\<close> runs the block to
  its end, the collaborators answering as \<open>env\<close> says.\<close>

datatype action = Enter nat | Wake nat | Leave nat dispatch_env

fun is_critical :: "pc \<Rightarrow> bool" where
  "is_critical (Critical ch) = True"
| "is_critical p = False"

text \<open>
  One step. \<open>asyncio.Lock\<close> is taken only while it is free and is released where the
  \<open>async with\<close> block ends, by fall-through, \<open>return\<close> or exception alike. A newcomer
  may take a free lock before a suspended coroutine is resumed, which the lock's queue of
  waiters would not allow: the steps allow every interleaving the event loop has, and
  more. An action that the coroutine's state does not allow changes nothing.
\<close>

fun step :: "config \<Rightarrow> client \<Rightarrow> action \<Rightarrow> system \<Rightarrow> system" where
  "step cfg cl (Enter i) s =
     (case pcs s i of
        Idle \<Rightarrow>
          (case dispatch_entry cfg cl (shared s) of
             (Inl e, w1) \<Rightarrow> s\<lparr>shared := w1, pcs := (pcs s)(i := Done)\<rparr>
           | (Inr ch, w1) \<Rightarrow>
               (if locked s then s\<lparr>shared := w1, pcs := (pcs s)(i := Waiting ch)\<rparr>
                else s\<lparr>shared := w1, locked := True, pcs := (pcs s)(i := Critical ch)\<rparr>))
      | _ \<Rightarrow> s)"
| "step cfg cl (Wake i) s =
     (case pcs s i of
        Waiting ch \<Rightarrow>
          (if locked s then s else s\<lparr>locked := True, pcs := (pcs s)(i := Critical ch)\<rparr>)
      | _ \<Rightarrow> s)"
| "step cfg cl (Leave i env) s =
     (case pcs s i of
        Critical ch \<Rightarrow>
          s\<lparr>shared := locked_section cfg env ch (shared s), locked := False,
            pcs := (pcs s)(i := Done)\<rparr>
      | _ \<Rightarrow> s)"

text \<open>An interleaving is the list of the event loop's choices.\<close>

fun run :: "config \<Rightarrow> client \<Rightarrow> action list \<Rightarrow> system \<Rightarrow> system" where
  "run cfg cl [] s = s"
| "run cfg cl (a # as) s = run cfg cl as (step cfg cl a s)"

text \<open>\<open>n\<close> triggers at once: coroutines \<open>0\<close> to \<open>n - 1\<close> are about to start, the lock
  is free.\<close>

definition init :: "nat \<Rightarrow> world \<Rightarrow> system" where
  "init n w = \<lparr>shared = w, locked = False, pcs = (\<lambda>i. if i < n then Idle else Done)\<rparr>"

text \<open>The coroutines among the \<open>n\<close> that are inside the block.\<close>

definition in_critical :: "nat \<Rightarrow> system \<Rightarrow> nat list" where
  "in_critical n s = filter (\<lambda>i. is_critical (pcs s i)) [0..<n]"

section \<open>Concrete inputs\<close>

text \<open>Three distinct cached messages, a configuration with one watched channel that
  the client can see, collaborators that all succeed, and a world whose cache file holds
  a given list.\<close>

definition m1 :: cached_message where
  "m1 = \<lparr>username = ''alice'', name = ''Alice'', message = ''hello'', reply_message = None\<rparr>"

definition m2 :: cached_message where
  "m2 = \<lparr>username = ''bob'', name = ''Bob'', message = ''hi'', reply_message = None\<rparr>"

definition m3 :: cached_message where
  "m3 = \<lparr>username = ''carol'', name = ''Carol'', message = ''hey'', reply_message = None\<rparr>"

definition cfg0 :: config where
  "cfg0 = \<lparr>channel_bot_chat = Some [12345678], messages_cache = ''messages_cache.json'',
            remove_emojis_AI = False, send_message_line_by_line = True\<rparr>"

definition client0 :: client where
  "client0 = \<lparr>user_id = 1, channels = [12345678]\<rparr>"

definition env0 :: dispatch_env where
  "env0 = \<lparr>test_internet = True, typing_raises = False,
            cai_response = (\<lambda>d. Inr (''Hello'' @ [CHR 0x0A] @ ''there'')),
            remove_emoji = Inr, send_raises = (\<lambda>k. False), concurrent = id,
            write_raises = False, time_now = 100\<rparr>"

text \<open>A working directory in which a relative path names the file of that name, with
  or without leading \<open>./\<close>.\<close>

fun drop_dot :: "string \<Rightarrow> string" where
  "drop_dot (a # b # p) = (if a = CHR ''.'' \<and> b = CHR ''/'' then drop_dot p else a # b # p)"
| "drop_dot p = p"

text \<open>Two files, \<open>messages_cache.json\<close> and \<open>cache.json\<close>, and nothing else.\<close>

definition fs_two :: "cached_message list \<Rightarrow> cached_message list \<Rightarrow> fs" where
  "fs_two cache other =
     \<lparr>file_of = drop_dot,
      stored = [''messages_cache.json'' \<mapsto> cache, ''cache.json'' \<mapsto> other]\<rparr>"

definition fs0 :: "cached_message list \<Rightarrow> fs" where
  "fs0 cache = \<lparr>file_of = drop_dot, stored = [''messages_cache.json'' \<mapsto> cache]\<rparr>"

definition world0 :: "cached_message list \<Rightarrow> world" where
  "world0 cache =
     \<lparr>bot = \<lparr>last_message_time = 0, awaiting_response = False\<rparr>,
      files = fs0 cache, events = []\<rparr>"

text \<open>The collector appends \<open>new\<close> to the cache while the dispatch is suspended.\<close>

definition env_arrival :: "cached_message list \<Rightarrow> dispatch_env" where
  "env_arrival new = env0\<lparr>concurrent := (\<lambda>fs. case read_json ''messages_cache.json'' fs of
       Inl e \<Rightarrow> fs | Inr cache \<Rightarrow> write_json ''messages_cache.json'' (cache @ new) fs)\<rparr>"

text \<open>The second call of \<open>send\<close> raises.\<close>

definition env_send_fails :: dispatch_env where
  "env_send_fails = env0\<lparr>send_raises := (\<lambda>k. k = 1)\<rparr>"

text \<open>A client that cannot see the configured channel.\<close>

definition client_blind :: client where
  "client_blind = \<lparr>user_id = 1, channels = []\<rparr>"

text \<open>A reply to message 42 in the watched channel, and a client that cannot fetch
  the message replied to.\<close>

definition msg_reply :: chat_message where
  "msg_reply = \<lparr>channel_id = 12345678, author_id = 2, author = ''alice'',
                  global_name = None, author_name = ''Alice'', content = ''hello'',
                  reference = Some 42\<rparr>"

definition cenv_unfetchable :: collector_env where
  "cenv_unfetchable = \<lparr>fetch_message = (\<lambda>i. Inl ExternalError), collect_now = 50\<rparr>"

text \<open>A configuration whose cache is the other file, one whose cache path is another
  name of \<open>messages_cache.json\<close>, a message that replies to nothing, and a world with
  the two files.\<close>

definition cfg_other :: config where
  "cfg_other = cfg0\<lparr>messages_cache := ''cache.json''\<rparr>"



definition world_two :: "cached_message list \<Rightarrow> cached_message list \<Rightarrow> world" where
  "world_two cache other =
     \<lparr>bot = \<lparr>last_message_time = 0, awaiting_response = False\<rparr>,
      files = fs_two cache other, events = []\<rparr>"

section \<open>Facts about the cache store\<close>

lemma read_json_write_json: "read_json p (write_json p xs fs) = Inr xs"
  by (simp add: read_json_def write_json_def)



lemma write_json_same: "read_json p fs = Inr xs \<Longrightarrow> write_json p xs fs = fs"
  by (simp add: read_json_def write_json_def map_upd_triv split: option.splits)

lemma drop_dot_names:
  "drop_dot ''messages_cache.json'' = ''messages_cache.json''"
  "drop_dot ''./messages_cache.json'' = ''messages_cache.json''"
  "drop_dot ''cache.json'' = ''cache.json''"
  by simp_all

lemma read_fs0: "read_json ''messages_cache.json'' (fs0 cache) = Inr cache"
  by (simp add: read_json_def fs0_def)


section \<open>Facts about the dispatch\<close>

lemma m_distinct: "m1 \<noteq> m2" "m1 \<noteq> m3" "m2 \<noteq> m3" "m2 \<noteq> m1" "m3 \<noteq> m1" "m3 \<noteq> m2"
  by (simp_all add: m1_def m2_def m3_def)

lemma try_body_snapshot:
  "\<not> typing_raises env \<Longrightarrow> read_json (messages_cache cfg) fs = Inr S
   \<Longrightarrow> fst (try_body cfg env (Some c) fs) = Some S"
  by (simp add: try_body_def Let_def)

lemma finally_block_bot:
  "bot (finally_block cfg env d w) =
     (bot w)\<lparr>awaiting_response := False, last_message_time := time_now env\<rparr>"
  by (simp add: finally_block_def Let_def log_event_def split: sum.splits)

lemma finally_block_files:
  "read_json (messages_cache cfg) (files w) = Inr C \<Longrightarrow> \<not> write_raises env
   \<Longrightarrow> files (finally_block cfg env (Some S) w) =
        write_json (messages_cache cfg) (filter (\<lambda>x. x \<notin> set S) C) (files w)"
  by (simp add: finally_block_def Let_def log_event_def remove_messages_def)

lemma locked_section_bot:
  "test_internet env \<Longrightarrow>
   bot (locked_section cfg env ch w) =
     (bot w)\<lparr>awaiting_response := False, last_message_time := time_now env\<rparr>"
  by (simp add: locked_section_def Let_def finally_block_bot log_event_def split: option.splits)

lemma locked_section_files:
  assumes "test_internet env" "\<not> typing_raises env" "\<not> write_raises env"
    and "read_json (messages_cache cfg) (files w) = Inr S"
    and "read_json (messages_cache cfg) (concurrent env (files w)) = Inr C"
  shows "files (locked_section cfg env (Some c) w) =
     write_json (messages_cache cfg) (filter (\<lambda>x. x \<notin> set S) C) (concurrent env (files w))"
proof -
  have snap: "fst (try_body cfg env (Some c) (files w)) = Some S"
    using assms by (simp add: try_body_snapshot)
  show ?thesis
    using assms
    by (simp add: locked_section_def Let_def snap finally_block_files log_event_def
          split: option.splits)
qed

lemma remove_messages_disjoint_helper:
  "set c \<inter> set s = {} \<Longrightarrow> filter (\<lambda>x. x \<notin> set s) c = c"
  by (induction c) auto

lemma dispatch_entry_found:
  "channel_bot_chat cfg = Some (c # cs) \<Longrightarrow> c \<in> set (channels cl)
   \<Longrightarrow> dispatch_entry cfg cl w = (Inr (Some c), w\<lparr>bot := (bot w)\<lparr>awaiting_response := True\<rparr>\<rparr>)"
  by (simp add: dispatch_entry_def response_channel_id_def get_channel_def)

lemma AI_send_message_found:
  "channel_bot_chat cfg = Some (c # cs) \<Longrightarrow> c \<in> set (channels cl)
   \<Longrightarrow> AI_send_message cfg cl env w =
        (None, locked_section cfg env (Some c) (w\<lparr>bot := (bot w)\<lparr>awaiting_response := True\<rparr>\<rparr>))"
  by (simp add: AI_send_message_def dispatch_entry_found)

lemma AI_send_message_reconciles:
  assumes "channel_bot_chat cfg = Some (c # cs)" and "c \<in> set (channels cl)"
    and "test_internet env" and "\<not> typing_raises env" and "\<not> write_raises env"
    and "read_json (messages_cache cfg) (files w) = Inr S"
    and "read_json (messages_cache cfg) (concurrent env (files w)) = Inr C"
  shows "files (snd (AI_send_message cfg cl env w)) =
           write_json (messages_cache cfg) (filter (\<lambda>x. x \<notin> set S) C)
             (concurrent env (files w))"
proof -
  let ?w1 = "w\<lparr>bot := (bot w)\<lparr>awaiting_response := True\<rparr>\<rparr>"
  have run: "AI_send_message cfg cl env w = (None, locked_section cfg env (Some c) ?w1)"
    using assms(1,2) by (rule AI_send_message_found)
  have "files (locked_section cfg env (Some c) ?w1) =
          write_json (messages_cache cfg) (filter (\<lambda>x. x \<notin> set S) C)
            (concurrent env (files ?w1))"
    using assms by (intro locked_section_files) simp_all
  then show ?thesis by (simp add: run)
qed

lemma AI_send_message_resets:
  assumes "channel_bot_chat cfg = Some (c # cs)" and "c \<in> set (channels cl)"
    and "test_internet env"
  shows "bot (snd (AI_send_message cfg cl env w)) =
           (bot w)\<lparr>awaiting_response := False, last_message_time := time_now env\<rparr>"
  using assms by (simp add: AI_send_message_found locked_section_bot)

lemma fixture_simps:
  "channel_bot_chat cfg0 = Some [12345678]" "messages_cache cfg0 = ''messages_cache.json''"
  "12345678 \<in> set (channels client0)"
  "test_internet (env_arrival new)" "\<not> typing_raises (env_arrival new)"
  "\<not> write_raises (env_arrival new)"
  "files (world0 cache) = fs0 cache"
  "concurrent (env_arrival new) (fs0 cache) =
     write_json ''messages_cache.json'' (cache @ new) (fs0 cache)"
  by (simp_all add: cfg0_def client0_def env_arrival_def env0_def world0_def read_fs0)

lemma env0_simps:
  "test_internet env0" "\<not> typing_raises env0" "\<not> write_raises env0" "time_now env0 = 100"
  "concurrent env0 = id"
  by (simp_all add: env0_def)

lemma send_fails_simps:
  "test_internet env_send_fails" "\<not> typing_raises env_send_fails"
  "\<not> write_raises env_send_fails" "time_now env_send_fails = 100"
  "concurrent env_send_fails = id"
  by (simp_all add: env_send_fails_def env0_def)

lemma split_nl_hello: "split_nl (''Hello'' @ [CHR 0x0A] @ ''there'') = [''Hello'', ''there'']"
  by simp

lemma strip_hello: "strip ''Hello'' \<noteq> []" "strip ''there'' \<noteq> []"
  by (simp_all add: strip_def is_space_def)

lemma respond_send_fails:
  "respond cfg0 env_send_fails (Some 12345678) [m1] =
     ([Log DEBUG ''AI response received: %s'', Send 12345678 ''Hello'',
       Log DEBUG ''Sent line: %s''], Some ExternalError)"
  unfolding respond_def deliver_def
  by (simp add: cfg0_def env_send_fails_def env0_def split_nl_hello strip_hello del: append.simps split_nl.simps)

lemma locked_section_empty_files:
  assumes "test_internet env" and "\<not> typing_raises env"
    and "read_json (messages_cache cfg) (files w) = Inr []"
  shows "files (locked_section cfg env (Some c) w) = concurrent env (files w)"
proof -
  have snap: "try_body cfg env (Some c) (files w) =
                (Some [], [Log INFO ''No cached messages found.''], None)"
    using assms by (simp add: try_body_def)
  show ?thesis
    using assms(1)
    by (auto simp add: locked_section_def snap finally_block_def Let_def log_event_def
          remove_messages_def write_json_same split: sum.splits)
qed

lemma locked_section_empty_events:
  assumes "test_internet env" and "\<not> typing_raises env"
    and "read_json (messages_cache cfg) (files w) = Inr []"
  shows "\<exists>lv s. events (locked_section cfg env (Some c) w) =
           events w @ [Log INFO ''No cached messages found.'', Log lv s]"
proof -
  have snap: "try_body cfg env (Some c) (files w) =
                (Some [], [Log INFO ''No cached messages found.''], None)"
    using assms by (simp add: try_body_def)
  show ?thesis
    using assms(1)
    by (auto simp add: locked_section_def snap finally_block_def Let_def log_event_def
          split: sum.splits)
qed

section \<open>Facts about the monitor and the collector\<close>










section \<open>Facts about the interleavings\<close>

lemma step_exclusive:
  assumes "\<And>i j. is_critical (pcs s i) \<Longrightarrow> is_critical (pcs s j) \<Longrightarrow> i = j"
    and "\<And>i. is_critical (pcs s i) \<Longrightarrow> locked s"
  shows "(\<forall>i j. is_critical (pcs (step cfg cl a s) i) \<longrightarrow> is_critical (pcs (step cfg cl a s) j) \<longrightarrow> i = j)
       \<and> (\<forall>i. is_critical (pcs (step cfg cl a s) i) \<longrightarrow> locked (step cfg cl a s))"
proof (cases a)
  case (Enter k)
  then show ?thesis using assms
    by (auto split: pc.splits sum.splits prod.splits if_splits)
next
  case (Wake k)
  then show ?thesis using assms
    by (auto split: pc.splits if_splits)
next
  case (Leave k env)
  then show ?thesis using assms
    by (auto split: pc.splits if_splits)
qed

lemma run_exclusive:
  assumes "\<And>i j. is_critical (pcs s i) \<Longrightarrow> is_critical (pcs s j) \<Longrightarrow> i = j"
    and "\<And>i. is_critical (pcs s i) \<Longrightarrow> locked s"
  shows "is_critical (pcs (run cfg cl sched s) i) \<Longrightarrow> is_critical (pcs (run cfg cl sched s) j) \<Longrightarrow> i = j"
  using assms
proof (induction sched arbitrary: s)
  case Nil
  then show ?case by simp
next
  case (Cons a sched)
  have inv: "(\<forall>i j. is_critical (pcs (step cfg cl a s) i) \<longrightarrow> is_critical (pcs (step cfg cl a s) j) \<longrightarrow> i = j)
       \<and> (\<forall>i. is_critical (pcs (step cfg cl a s) i) \<longrightarrow> locked (step cfg cl a s))"
    using Cons.prems(3,4) by (rule step_exclusive)
  show ?case
  proof (rule Cons.IH [of "step cfg cl a s"])
    show "is_critical (pcs (run cfg cl sched (step cfg cl a s)) i)" using Cons.prems(1) by simp
    show "is_critical (pcs (run cfg cl sched (step cfg cl a s)) j)" using Cons.prems(2) by simp
    show "\<And>i j. is_critical (pcs (step cfg cl a s) i) \<Longrightarrow> is_critical (pcs (step cfg cl a s) j) \<Longrightarrow> i = j"
      using inv by blast
    show "\<And>i. is_critical (pcs (step cfg cl a s) i) \<Longrightarrow> locked (step cfg cl a s)"
      using inv by blast
  qed
qed

lemma distinct_two:
  "distinct xs \<Longrightarrow> 2 \<le> length xs \<Longrightarrow> \<exists>a b. a \<in> set xs \<and> b \<in> set xs \<and> a \<noteq> b"
  by (cases xs; cases "tl xs") auto

lemma cfg0_entry:
  "dispatch_entry cfg0 client0 w =
     (Inr (Some 12345678), w\<lparr>bot := (bot w)\<lparr>awaiting_response := True\<rparr>\<rparr>)"
  by (rule dispatch_entry_found [where cs = "[]"]) (simp_all add: fixture_simps)

lemma upt_three: "[0..<3] = [0, 1, 2::nat]"
  by code_simp

section \<open>The claims\<close>

text \<open>
  C1 (amended). A dispatch that read the snapshot \<open>S\<close> and finds the cache \<open>S @ A\<close>
  when it re-reads it persists \<open>A\<close> without the entries that are equal by value to an
  entry of \<open>S\<close>, in the order of \<open>A\<close>. Every later arrival that equals no snapshot entry
  is kept (cache [m1, m2], snapshot [m1, m2], m3 arrives: the final cache is [m3]); a
  later arrival that equals a snapshot entry is removed with it.
\<close>

theorem dispatch_keeps_later_arrivals:
  assumes "channel_bot_chat cfg = Some (c # cs)" and "c \<in> set (channels cl)"
    and "test_internet env" and "\<not> typing_raises env" and "\<not> write_raises env"
    and "read_json (messages_cache cfg) (files w) = Inr S"
    and "read_json (messages_cache cfg) (concurrent env (files w)) = Inr (S @ A)"
  shows "read_json (messages_cache cfg) (files (snd (AI_send_message cfg cl env w)))
           = Inr (filter (\<lambda>x. x \<notin> set S) A)
         \<and> (set A \<inter> set S = {} \<longrightarrow>
              read_json (messages_cache cfg) (files (snd (AI_send_message cfg cl env w)))
                = Inr A)"
proof -
  have fin: "read_json (messages_cache cfg) (files (snd (AI_send_message cfg cl env w)))
           = Inr (filter (\<lambda>x. x \<notin> set S) A)"
    using AI_send_message_reconciles [OF assms] by (simp add: read_json_write_json)
  moreover have "set A \<inter> set S = {} \<Longrightarrow> filter (\<lambda>x. x \<notin> set S) A = A"
    by (rule remove_messages_disjoint_helper)
  ultimately show ?thesis by simp
qed

theorem dispatch_keeps_later_arrivals_witness:
  "read_json (messages_cache cfg0) (files (world0 [m1, m2])) = Inr [m1, m2]
   \<and> read_json (messages_cache cfg0) (concurrent (env_arrival [m3]) (files (world0 [m1, m2])))
        = Inr ([m1, m2] @ [m3])
   \<and> read_json (messages_cache cfg0)
        (files (snd (AI_send_message cfg0 client0 (env_arrival [m3]) (world0 [m1, m2]))))
        = Inr [m3]"
  using dispatch_keeps_later_arrivals [of cfg0 12345678 "[]" client0 "env_arrival [m3]"
      "world0 [m1, m2]" "[m1, m2]" "[m3]"]
  by (simp add: fixture_simps m_distinct read_fs0 read_json_write_json)

text \<open>
  C1 as stated fails: with the snapshot [m1, m2], a second message equal to m1 that
  arrives during the dispatch was not in the snapshot, yet the persisted cache is empty.
\<close>

theorem duplicate_arrival_counterexample:
  "read_json (messages_cache cfg0) (files (world0 [m1, m2])) = Inr [m1, m2]
   \<and> read_json (messages_cache cfg0) (concurrent (env_arrival [m1]) (files (world0 [m1, m2])))
        = Inr ([m1, m2] @ [m1])
   \<and> read_json (messages_cache cfg0)
        (files (snd (AI_send_message cfg0 client0 (env_arrival [m1]) (world0 [m1, m2]))))
        = Inr []
   \<and> read_json (messages_cache cfg0)
        (files (snd (AI_send_message cfg0 client0 (env_arrival [m1]) (world0 [m1, m2]))))
        \<noteq> Inr [m1]"
  using AI_send_message_reconciles [of cfg0 12345678 "[]" client0 "env_arrival [m1]"
      "world0 [m1, m2]" "[m1, m2]" "[m1, m2] @ [m1]"]
  by (simp add: fixture_simps m_distinct read_fs0 read_json_write_json)

text \<open>
  C2. What the code does when the configured cache is another file than
  \<open>messages_cache.json\<close>: the monitor counts the entries of \<open>messages_cache.json\<close>, not
  those of the cache. With five entries in the cache, 1000 units of silence and the flag
  false it does nothing at all; with an empty cache and one entry in
  \<open>messages_cache.json\<close> it calls \<open>AI_send_message\<close>, which finds no cached message. The
  claim has the dispatch triggered in the first case and not in the second.
\<close>

theorem monitor_miscounts_run:
  "read_json (messages_cache cfg_other) (files (world_two [] [m1, m2, m3, m1, m2]))
     = Inr [m1, m2, m3, m1, m2]
   \<and> monitor_tick cfg_other client0 env0 1000 (world_two [] [m1, m2, m3, m1, m2])
     = (False, world_two [] [m1, m2, m3, m1, m2])
   \<and> read_json (messages_cache cfg_other) (files (world_two [m1] [])) = Inr []
   \<and> monitor_tick cfg_other client0 env0 1000 (world_two [m1] [])
     = (True,
        \<lparr>bot = \<lparr>last_message_time = 100, awaiting_response = False\<rparr>,
         files = fs_two [m1] [],
         events =
           [Log DEBUG
              ''Inactivity threshold reached (or cache count >= 5). Triggering AI_send_message.'',
            Log INFO ''No cached messages found.'',
            Log DEBUG ''Cache updated after sending AI message.'']\<rparr>)"
  by (simp add: monitor_tick_def open_json_load_def trigger_condition_def AI_send_message_def
        dispatch_entry_def response_channel_id_def get_channel_def locked_section_def
        try_body_def finally_block_def remove_messages_def read_json_def write_json_def
        log_event_def Let_def cfg_other_def cfg0_def client0_def env0_def world_two_def
        fs_two_def)

text \<open>
  C3. When the channel is found, the network is up and the snapshot \<open>S\<close> has been read,
  then whatever the AI call, the emoji stripping and the sends do, raising included, the
  dispatch ends with \<open>awaiting_response\<close> false and \<open>last_message_time\<close> refreshed, and,
  the cache being re-read as \<open>C\<close> and written, the file holds \<open>C\<close> minus \<open>S\<close>.
\<close>

theorem failed_dispatch_still_concludes:
  assumes "channel_bot_chat cfg = Some (c # cs)" and "c \<in> set (channels cl)"
    and "test_internet env" and "\<not> typing_raises env" and "\<not> write_raises env"
    and "read_json (messages_cache cfg) (files w) = Inr S"
    and "read_json (messages_cache cfg) (concurrent env (files w)) = Inr C"
  shows "awaiting_response (bot (snd (AI_send_message cfg cl env w))) = False
         \<and> last_message_time (bot (snd (AI_send_message cfg cl env w))) = time_now env
         \<and> read_json (messages_cache cfg) (files (snd (AI_send_message cfg cl env w)))
             = Inr (filter (\<lambda>x. x \<notin> set S) C)"
  using AI_send_message_resets [OF assms(1,2,3)] AI_send_message_reconciles [OF assms]
  by (simp add: read_json_write_json)

text \<open>Cache [m1], snapshot [m1], the second send raises: the flag is cleared, the
  timestamp is the current time and the cache is empty.\<close>

theorem failed_dispatch_still_concludes_witness:
  "read_json (messages_cache cfg0) (files (world0 [m1])) = Inr [m1]
   \<and> snd (respond cfg0 env_send_fails (Some 12345678) [m1]) = Some ExternalError
   \<and> awaiting_response (bot (snd (AI_send_message cfg0 client0 env_send_fails (world0 [m1])))) = False
   \<and> last_message_time (bot (snd (AI_send_message cfg0 client0 env_send_fails (world0 [m1])))) = 100
   \<and> read_json (messages_cache cfg0)
        (files (snd (AI_send_message cfg0 client0 env_send_fails (world0 [m1])))) = Inr []"
  using failed_dispatch_still_concludes [of cfg0 12345678 "[]" client0 env_send_fails
      "world0 [m1]" "[m1]" "[m1]"]
  by (simp add: fixture_simps send_fails_simps respond_send_fails read_fs0)

text \<open>
  C4. What the code does with an accepted reply whose referenced message cannot be
  fetched: the inner handler logs the error, nothing is appended to the cache (it still
  holds [m1] only), and \<open>last_message_time\<close> is refreshed all the same. The claim has
  the message stored without its reply context.
\<close>

theorem unfetchable_reply_run:
  "read_channel_messages cfg0 client0 cenv_unfetchable msg_reply (world0 [m1]) =
     \<lparr>bot = \<lparr>last_message_time = 50, awaiting_response = False\<rparr>,
      files = fs0 [m1],
      events = [Log DEBUG ''Reading message from channel: %s'',
                Log ERROR ''Error fetching reference message: %s'']\<rparr>"
  by (simp add: read_channel_messages_def watched_channels_def is_comment_def touch_def
        log_event_def Let_def cfg0_def client0_def cenv_unfetchable_def msg_reply_def world0_def)

text \<open>
  C5. What the code does when the client cannot see the configured channel:
  \<open>response_channel.typing()\<close> raises on \<open>None\<close> before the cache is read, so the
  handler logs at error level, no reply is asked for, the branch with the critical log
  is never reached, and the comprehension of the \<open>finally\<close> block raises on the unbound
  \<open>cached_data\<close>: the cache still holds [m1]. The claim has a critical log and the cache
  reconciled.
\<close>

theorem unresolved_channel_run:
  "AI_send_message cfg0 client_blind env0 (world0 [m1]) =
     (None,
      \<lparr>bot = \<lparr>last_message_time = 100, awaiting_response = False\<rparr>,
       files = fs0 [m1],
       events = [Log ERROR ''An error occurred while sending AI message: %s'',
                 Log ERROR ''Error updating message cache: %s'']\<rparr>)"
  by (simp add: AI_send_message_def dispatch_entry_def response_channel_id_def get_channel_def
        locked_section_def try_body_def finally_block_def remove_messages_def read_json_def
        log_event_def Let_def cfg0_def client_blind_def env0_def world0_def fs0_def)

text \<open>
  C6. With \<open>n\<close> triggers at once, after every interleaving at most one of the \<open>n\<close>
  coroutines is inside the block that \<open>response_lock\<close> guards.
\<close>

theorem dispatch_mutual_exclusion:
  "length (in_critical n (run cfg cl sched (init n w))) \<le> 1"
proof (rule ccontr)
  let ?s = "run cfg cl sched (init n w)"
  assume "\<not> length (in_critical n ?s) \<le> 1"
  then have "2 \<le> length (in_critical n ?s)" by simp
  moreover have "distinct (in_critical n ?s)" by (simp add: in_critical_def)
  ultimately obtain a b where ab: "a \<in> set (in_critical n ?s)" "b \<in> set (in_critical n ?s)" "a \<noteq> b"
    using distinct_two by blast
  then have "is_critical (pcs ?s a)" "is_critical (pcs ?s b)"
    by (simp_all add: in_critical_def)
  then have "a = b"
    by (rule run_exclusive [rotated 2]) (simp_all add: init_def split: if_splits)
  with ab(3) show False by simp
qed

text \<open>Three triggers: the first is inside and the others wait, also when the event
  loop tries to resume one; once the first has left, one of the others is inside.\<close>

theorem dispatch_mutual_exclusion_witness:
  "length (in_critical 3 (run cfg0 client0 [Enter 0, Enter 1, Enter 2, Wake 1]
      (init 3 (world0 [m1])))) \<le> 1
   \<and> in_critical 3 (run cfg0 client0 [Enter 0, Enter 1, Enter 2, Wake 1]
        (init 3 (world0 [m1]))) = [0]
   \<and> in_critical 3 (run cfg0 client0 [Enter 0, Enter 1, Enter 2, Leave 0 env0, Wake 2, Wake 1]
        (init 3 (world0 [m1]))) = [2]"
  using dispatch_mutual_exclusion [of 3 cfg0 client0 "[Enter 0, Enter 1, Enter 2, Wake 1]"
      "world0 [m1]"]
  by (simp add: in_critical_def init_def cfg0_entry upt_three)

text \<open>
  C7 (amended). A dispatch whose snapshot is empty returns without an exception, having
  only logged twice (no reply is asked for, nothing is sent), leaves every file as the
  other coroutines left it and \<open>awaiting_response\<close> false; its \<open>return\<close> passes through
  the \<open>finally\<close> block, so \<open>last_message_time\<close> is refreshed to the current time.
\<close>

theorem empty_snapshot_dispatch:
  assumes "channel_bot_chat cfg = Some (c # cs)" and "c \<in> set (channels cl)"
    and "test_internet env" and "\<not> typing_raises env"
    and "read_json (messages_cache cfg) (files w) = Inr []"
  shows "fst (AI_send_message cfg cl env w) = None
         \<and> (\<exists>lv s. events (snd (AI_send_message cfg cl env w)) =
               events w @ [Log INFO ''No cached messages found.'', Log lv s])
         \<and> files (snd (AI_send_message cfg cl env w)) = concurrent env (files w)
         \<and> awaiting_response (bot (snd (AI_send_message cfg cl env w))) = False
         \<and> last_message_time (bot (snd (AI_send_message cfg cl env w))) = time_now env"
proof -
  let ?w1 = "w\<lparr>bot := (bot w)\<lparr>awaiting_response := True\<rparr>\<rparr>"
  have run: "AI_send_message cfg cl env w = (None, locked_section cfg env (Some c) ?w1)"
    using assms(1,2) by (rule AI_send_message_found)
  have fs: "files (locked_section cfg env (Some c) ?w1) = concurrent env (files ?w1)"
    using assms by (intro locked_section_empty_files) simp_all
  have "\<exists>lv s. events (locked_section cfg env (Some c) ?w1) =
          events ?w1 @ [Log INFO ''No cached messages found.'', Log lv s]"
    using assms by (intro locked_section_empty_events) simp_all
  then have ev: "\<exists>lv s. events (snd (AI_send_message cfg cl env w)) =
          events w @ [Log INFO ''No cached messages found.'', Log lv s]"
    by (simp add: run)
  show ?thesis
    using assms(3) fs ev by (simp add: run locked_section_bot)
qed

theorem empty_snapshot_dispatch_witness:
  "read_json (messages_cache cfg0) (files (world0 [])) = Inr []
   \<and> fst (AI_send_message cfg0 client0 env0 (world0 [])) = None
   \<and> events (world0 []) = []
   \<and> files (snd (AI_send_message cfg0 client0 env0 (world0 []))) = files (world0 [])
   \<and> awaiting_response (bot (snd (AI_send_message cfg0 client0 env0 (world0 [])))) = False
   \<and> last_message_time (bot (snd (AI_send_message cfg0 client0 env0 (world0 [])))) = 100"
  using empty_snapshot_dispatch [of cfg0 12345678 "[]" client0 env0 "world0 []"]
  by (simp add: fixture_simps env0_simps read_fs0) (simp add: world0_def)

text \<open>
  C7 as stated fails: the timestamp was 0 before the dispatch of an empty cache and is
  100, the current time, after it.
\<close>

theorem empty_snapshot_timestamp_counterexample:
  "read_json (messages_cache cfg0) (files (world0 [])) = Inr []
   \<and> last_message_time (bot (world0 [])) = 0
   \<and> last_message_time (bot (snd (AI_send_message cfg0 client0 env0 (world0 [])))) = 100
   \<and> last_message_time (bot (snd (AI_send_message cfg0 client0 env0 (world0 []))))
        \<noteq> last_message_time (bot (world0 []))"
  using AI_send_message_resets [of cfg0 12345678 "[]" client0 env0 "world0 []"]
  by (simp add: fixture_simps env0_simps read_fs0) (simp add: world0_def)

text \<open>
  C8. Reconciling a cache none of whose entries is in the snapshot computes the cache
  itself: the same entries in the same order.
\<close>

theorem remainder_disjoint:
  "\<forall>x\<in>set C. x \<notin> set S \<Longrightarrow> remove_messages C (Some S) = Inr C"
  by (simp add: remove_messages_def filter_id_conv)

theorem remainder_disjoint_witness:
  "m1 \<notin> set [m3] \<and> m2 \<notin> set [m3] \<and> remove_messages [m1, m2] (Some [m3]) = Inr [m1, m2]"
  using remainder_disjoint [of "[m1, m2]" "[m3]"] by (simp add: m_distinct)




text \<open>
  C10. What the code does when the watched-channel list is configured empty: indexing
  it raises IndexError before the lock is taken, and \<open>awaiting_response\<close> stays true.
  The claim has the channel resolved to \<open>None\<close>.
\<close>

theorem empty_watch_list_raises:
  "AI_send_message (cfg\<lparr>channel_bot_chat := Some []\<rparr>) cl env w =
     (Some IndexError, w\<lparr>bot := (bot w)\<lparr>awaiting_response := True\<rparr>\<rparr>)"
  by (simp add: AI_send_message_def dispatch_entry_def response_channel_id_def)

end
